theory Spec2Isabelle
  imports Complex_Main "HOL-Library.Multiset"
begin

section \<open>Backend versions and errors\<close>

text \<open>
  A backend version is a Python tuple of integers (\<^verbatim>\<open>tuple[int, ...]\<close>).  The adapters
  compare it with Python's \<^verbatim>\<open><\<close> on tuples: the first position where the two tuples
  differ decides, and a proper prefix is smaller than the longer tuple.
\<close>

fun tuple_lt :: "int list \<Rightarrow> int list \<Rightarrow> bool" where
  "tuple_lt [] [] = False"
| "tuple_lt [] (y # ys) = True"
| "tuple_lt (x # xs) [] = False"
| "tuple_lt (x # xs) (y # ys) = (if x = y then tuple_lt xs ys else x < y)"

text \<open>
  The exceptions an adapter call can end with.  \<open>NotImplementedError\<close> and
  \<open>AttributeError\<close> are the Python built-ins the Polars adapter raises,
  \<open>InvalidOperationError\<close> is the class of \<^verbatim>\<open>narwhals/exceptions.py\<close>.  The message
  texts are not modelled.  \<open>UnsupportedDtype\<close>, \<open>ShapeMismatch\<close> and
  \<open>CrossEngineOperand\<close> are raised by helpers that live outside the three source files
  (the dtype translator and the comparand validator); they are named as the
  specification names them.  \<open>NativeError e\<close> is an exception \<open>e\<close> of the wrapped
  engine, which the adapters let through unchanged.
\<close>

datatype 'e error =
    NotImplementedError
  | InvalidOperationError
  | AttributeError
  | UnsupportedDtype
  | ShapeMismatch
  | CrossEngineOperand
  | NativeError 'e

text \<open>An engine call that may raise: its exception is passed on as \<open>NativeError\<close>.\<close>

definition native :: "'e + 'a \<Rightarrow> 'e error + 'a" where
  "native r = (case r of Inl e \<Rightarrow> Inl (NativeError e) | Inr x \<Rightarrow> Inr x)"

section \<open>The Polars adapter\<close>

text \<open>
  \<^verbatim>\<open>PolarsSeries.__init__\<close> stores the native series, the backend version and the
  API version.  The type \<open>'n\<close> is the type of the wrapped native object, \<open>'v\<close> the
  \<^verbatim>\<open>Version\<close> enumeration (declared in \<^verbatim>\<open>narwhals.utils\<close>).
\<close>

record ('n, 'v) PolarsSeries =
  native_series :: 'n
  backend_version :: "int list"
  version :: 'v

record ('f, 'v) PolarsDataFrame =
  native_frame :: 'f
  df_backend_version :: "int list"
  df_version :: 'v

text \<open>
  What a native call can give back, by the runtime shape \<^verbatim>\<open>_from_native_object\<close> tests
  with \<^verbatim>\<open>isinstance\<close>: a \<^verbatim>\<open>pl.Series\<close>, a \<^verbatim>\<open>pl.DataFrame\<close>, or anything else.
\<close>

datatype ('s, 'f, 'c) native_obj = NSeries 's | NDataFrame 'f | NScalar 'c

datatype ('s, 'f, 'c, 'v) adapter_obj =
    WSeries "('s, 'v) PolarsSeries"
  | WDataFrame "('f, 'v) PolarsDataFrame"
  | WScalar 'c

definition from_native_series :: "('n, 'v) PolarsSeries \<Rightarrow> 'm \<Rightarrow> ('m, 'v) PolarsSeries" where
  "from_native_series self series =
     \<lparr>native_series = series, backend_version = backend_version self, version = version self\<rparr>"

definition from_native_object ::
  "('n, 'v) PolarsSeries \<Rightarrow> ('s, 'f, 'c) native_obj \<Rightarrow> ('s, 'f, 'c, 'v) adapter_obj" where
  "from_native_object self series =
     (case series of
        NSeries x \<Rightarrow> WSeries (from_native_series self x)
      | NDataFrame d \<Rightarrow>
          WDataFrame \<lparr>native_frame = d, df_backend_version = backend_version self,
                      df_version = version self\<rparr>
      | NScalar c \<Rightarrow> WScalar c)"

text \<open>
  \<^verbatim>\<open>PolarsSeries.__getattr__\<close>, which Python calls for an attribute the class does not
  define.  The parameter \<open>native_call n attr args kwargs\<close> stands for the engine's
  \<^verbatim>\<open>getattr(n, attr)(*args, **kwargs)\<close>, and \<open>extract_args_kwargs\<close> for the helper of
  \<^verbatim>\<open>narwhals._polars.utils\<close> that unwraps adapter arguments.  The result is the
  closure \<^verbatim>\<open>func\<close>, or the \<^verbatim>\<open>AttributeError\<close>.
\<close>

definition PolarsSeries_getattr ::
  "('n \<Rightarrow> string \<Rightarrow> 'b list \<Rightarrow> (string \<times> 'b) list \<Rightarrow> 'e + ('s, 'f, 'c) native_obj) \<Rightarrow>
   ('a list \<Rightarrow> (string \<times> 'a) list \<Rightarrow> 'b list \<times> (string \<times> 'b) list) \<Rightarrow>
   ('n, 'v) PolarsSeries \<Rightarrow> string \<Rightarrow>
   'e error + ('a list \<Rightarrow> (string \<times> 'a) list \<Rightarrow> 'e error + ('s, 'f, 'c, 'v) adapter_obj)" where
  "PolarsSeries_getattr native_call extract_args_kwargs self attr =
     (if attr = ''as_py'' then Inl AttributeError
      else Inr (\<lambda>args kwargs.
             case extract_args_kwargs args kwargs of
               (args', kwargs') \<Rightarrow>
                 (case native (native_call (native_series self) attr args' kwargs') of
                    Inl e \<Rightarrow> Inl e
                  | Inr r \<Rightarrow> Inr (from_native_object self r))))"

text \<open>
  The three namespace proxies.  Each holds the owning series only; the properties
  \<^verbatim>\<open>dt\<close>, \<^verbatim>\<open>str\<close> and \<^verbatim>\<open>cat\<close> of the series build one on every access.
\<close>

datatype ('n, 'v) PolarsSeriesDateTimeNamespace =
  PolarsSeriesDateTimeNamespace (dt_series: "('n, 'v) PolarsSeries")

datatype ('n, 'v) PolarsSeriesStringNamespace =
  PolarsSeriesStringNamespace (str_series: "('n, 'v) PolarsSeries")

datatype ('n, 'v) PolarsSeriesCatNamespace =
  PolarsSeriesCatNamespace (cat_series: "('n, 'v) PolarsSeries")

definition PolarsSeries_dt :: "('n, 'v) PolarsSeries \<Rightarrow> ('n, 'v) PolarsSeriesDateTimeNamespace" where
  "PolarsSeries_dt self = PolarsSeriesDateTimeNamespace self"

definition PolarsSeries_str :: "('n, 'v) PolarsSeries \<Rightarrow> ('n, 'v) PolarsSeriesStringNamespace" where
  "PolarsSeries_str self = PolarsSeriesStringNamespace self"

definition PolarsSeries_cat :: "('n, 'v) PolarsSeries \<Rightarrow> ('n, 'v) PolarsSeriesCatNamespace" where
  "PolarsSeries_cat self = PolarsSeriesCatNamespace self"

text \<open>
  \<^verbatim>\<open>__getattr__\<close> of a proxy, applied to the arguments of the closure it returns.
  \<open>native_dt_call n attr args kwargs\<close> stands for
  \<^verbatim>\<open>getattr(n.dt, attr)(*args, **kwargs)\<close>, and likewise for \<^verbatim>\<open>.str\<close> and \<^verbatim>\<open>.cat\<close>.
  The native result goes to \<^verbatim>\<open>_from_native_series\<close>, whatever it is.
\<close>

definition PolarsSeriesDateTimeNamespace_getattr ::
  "('n \<Rightarrow> string \<Rightarrow> 'b list \<Rightarrow> (string \<times> 'b) list \<Rightarrow> 'e + 'r) \<Rightarrow>
   ('a list \<Rightarrow> (string \<times> 'a) list \<Rightarrow> 'b list \<times> (string \<times> 'b) list) \<Rightarrow>
   ('n, 'v) PolarsSeriesDateTimeNamespace \<Rightarrow> string \<Rightarrow> 'a list \<Rightarrow> (string \<times> 'a) list \<Rightarrow>
   'e error + ('r, 'v) PolarsSeries" where
  "PolarsSeriesDateTimeNamespace_getattr native_dt_call extract_args_kwargs self attr args kwargs =
     (case extract_args_kwargs args kwargs of
        (args', kwargs') \<Rightarrow>
          (case native (native_dt_call (native_series (dt_series self)) attr args' kwargs') of
             Inl e \<Rightarrow> Inl e
           | Inr r \<Rightarrow> Inr (from_native_series (dt_series self) r)))"

definition PolarsSeriesStringNamespace_getattr ::
  "('n \<Rightarrow> string \<Rightarrow> 'b list \<Rightarrow> (string \<times> 'b) list \<Rightarrow> 'e + 'r) \<Rightarrow>
   ('a list \<Rightarrow> (string \<times> 'a) list \<Rightarrow> 'b list \<times> (string \<times> 'b) list) \<Rightarrow>
   ('n, 'v) PolarsSeriesStringNamespace \<Rightarrow> string \<Rightarrow> 'a list \<Rightarrow> (string \<times> 'a) list \<Rightarrow>
   'e error + ('r, 'v) PolarsSeries" where
  "PolarsSeriesStringNamespace_getattr native_str_call extract_args_kwargs self attr args kwargs =
     (case extract_args_kwargs args kwargs of
        (args', kwargs') \<Rightarrow>
          (case native (native_str_call (native_series (str_series self)) attr args' kwargs') of
             Inl e \<Rightarrow> Inl e
           | Inr r \<Rightarrow> Inr (from_native_series (str_series self) r)))"

definition PolarsSeriesCatNamespace_getattr ::
  "('n \<Rightarrow> string \<Rightarrow> 'b list \<Rightarrow> (string \<times> 'b) list \<Rightarrow> 'e + 'r) \<Rightarrow>
   ('a list \<Rightarrow> (string \<times> 'a) list \<Rightarrow> 'b list \<times> (string \<times> 'b) list) \<Rightarrow>
   ('n, 'v) PolarsSeriesCatNamespace \<Rightarrow> string \<Rightarrow> 'a list \<Rightarrow> (string \<times> 'a) list \<Rightarrow>
   'e error + ('r, 'v) PolarsSeries" where
  "PolarsSeriesCatNamespace_getattr native_cat_call extract_args_kwargs self attr args kwargs =
     (case extract_args_kwargs args kwargs of
        (args', kwargs') \<Rightarrow>
          (case native (native_cat_call (native_series (cat_series self)) attr args' kwargs') of
             Inl e \<Rightarrow> Inl e
           | Inr r \<Rightarrow> Inr (from_native_series (cat_series self) r)))"

subsection \<open>The native Polars series\<close>

text \<open>
  Where an adapter method reads or combines the data of the native series, the native
  series is a name (Polars keeps a \<^verbatim>\<open>str\<close>, the empty string when none was given)
  and a list of cells, \<open>None\<close> being the null.  The engine operations the adapter
  composes are written out as functions on that list: \<^verbatim>\<open>is_null\<close>, \<^verbatim>\<open>~\<close>,
  \<^verbatim>\<open>filter\<close> (which keeps the cells whose mask is true and raises when the mask has
  another length), \<^verbatim>\<open>pl.concat\<close> (which takes the first series' name and raises on an
  empty list) and \<^verbatim>\<open>alias\<close>.  They belong to the engine, not to the repository.
\<close>

record 'a pl_series =
  pl_name :: string
  pl_values :: "'a option list"

definition pl_is_null :: "'a pl_series \<Rightarrow> bool pl_series" where
  "pl_is_null s = \<lparr>pl_name = pl_name s, pl_values = map (\<lambda>x. Some (x = None)) (pl_values s)\<rparr>"

definition pl_invert :: "bool pl_series \<Rightarrow> bool pl_series" where
  "pl_invert s = \<lparr>pl_name = pl_name s, pl_values = map (map_option Not) (pl_values s)\<rparr>"

definition pl_filter :: "'a pl_series \<Rightarrow> bool pl_series \<Rightarrow> string + 'a pl_series" where
  "pl_filter s predicate =
     (if length (pl_values predicate) \<noteq> length (pl_values s) then Inl ''ShapeError''
      else Inr \<lparr>pl_name = pl_name s,
                pl_values = map fst (filter (\<lambda>(x, m). m = Some True)
                                       (zip (pl_values s) (pl_values predicate)))\<rparr>)"

definition pl_concat :: "'a pl_series list \<Rightarrow> string + 'a pl_series" where
  "pl_concat items =
     (case items of
        [] \<Rightarrow> Inl ''ValueError''
      | s # rest \<Rightarrow> Inr \<lparr>pl_name = pl_name s, pl_values = concat (map pl_values items)\<rparr>)"

definition pl_alias :: "'a pl_series \<Rightarrow> string \<Rightarrow> 'a pl_series" where
  "pl_alias s n = s\<lparr>pl_name := n\<rparr>"

text \<open>The \<^verbatim>\<open>name\<close> property of the Polars adapter returns the native name as it is.\<close>

definition PolarsSeries_name :: "('a pl_series, 'v) PolarsSeries \<Rightarrow> string" where
  "PolarsSeries_name self = pl_name (native_series self)"

text \<open>Sequencing of calls that may raise: the first exception ends the method.\<close>

definition bind_err :: "'x + 'a \<Rightarrow> ('a \<Rightarrow> 'x + 'b) \<Rightarrow> 'x + 'b" where
  "bind_err m f = (case m of Inl e \<Rightarrow> Inl e | Inr x \<Rightarrow> f x)"

subsection \<open>Version-gated operations\<close>

text \<open>
  \<^verbatim>\<open>replace_strict\<close>.  The dtype translator \<^verbatim>\<open>narwhals_to_native_dtype\<close> lives in
  \<^verbatim>\<open>narwhals._polars.utils\<close>; here it is a parameter that gives \<open>None\<close> when it fails
  (the specification: the translator fails with an UnsupportedDtype error when the
  logical type has no native representation).  It runs before the version test, and only
  for a \<^verbatim>\<open>return_dtype\<close> other than \<^verbatim>\<open>None\<close>.
\<close>

definition PolarsSeries_replace_strict ::
  "('d \<Rightarrow> 'v \<Rightarrow> 'nd option) \<Rightarrow>
   ('n \<Rightarrow> 'x list \<Rightarrow> 'y list \<Rightarrow> 'nd option \<Rightarrow> 'e + 'm) \<Rightarrow>
   ('n, 'v) PolarsSeries \<Rightarrow> 'x list \<Rightarrow> 'y list \<Rightarrow> 'd option \<Rightarrow>
   'e error + ('m, 'v) PolarsSeries" where
  "PolarsSeries_replace_strict narwhals_to_native_dtype native_replace_strict self old new return_dtype =
     (let ser = native_series self in
      bind_err
        (case return_dtype of
           Some d \<Rightarrow>
             (case narwhals_to_native_dtype d (version self) of
                None \<Rightarrow> Inl UnsupportedDtype
              | Some nd \<Rightarrow> Inr (Some nd))
         | None \<Rightarrow> Inr None)
        (\<lambda>dtype.
           if tuple_lt (backend_version self) [1] then Inl NotImplementedError
           else bind_err (native (native_replace_strict ser old new dtype))
                  (\<lambda>r. Inr (from_native_series self r))))"

text \<open>
  \<^verbatim>\<open>ewm_mean\<close>.  The floats \<^verbatim>\<open>com\<close>, \<^verbatim>\<open>span\<close>, \<^verbatim>\<open>half_life\<close> and \<^verbatim>\<open>alpha\<close> are only
  passed on, so their type is left open.
\<close>

definition PolarsSeries_ewm_mean ::
  "('n \<Rightarrow> 'r option \<Rightarrow> 'r option \<Rightarrow> 'r option \<Rightarrow> 'r option \<Rightarrow> bool \<Rightarrow> int \<Rightarrow> bool \<Rightarrow> 'e + 'm) \<Rightarrow>
   ('n, 'v) PolarsSeries \<Rightarrow> 'r option \<Rightarrow> 'r option \<Rightarrow> 'r option \<Rightarrow> 'r option \<Rightarrow>
   bool \<Rightarrow> int \<Rightarrow> bool \<Rightarrow> 'e error + ('m, 'v) PolarsSeries" where
  "PolarsSeries_ewm_mean native_ewm_mean self com span' half_life alpha adjust min_periods ignore_nulls =
     (if tuple_lt (backend_version self) [1] then Inl NotImplementedError
      else (let expr = native_series self in
            bind_err (native (native_ewm_mean expr com span' half_life alpha adjust
                                min_periods ignore_nulls))
              (\<lambda>r. Inr (from_native_series self r))))"

subsection \<open>Median\<close>

text \<open>
  The \<^verbatim>\<open>dtype\<close> property translates the native dtype with
  \<^verbatim>\<open>native_to_narwhals_dtype\<close> (of \<^verbatim>\<open>narwhals._polars.utils\<close>, a parameter here, as is
  the method \<^verbatim>\<open>is_numeric\<close> of the abstract dtype).  \<^verbatim>\<open>median\<close> tests it before the
  native call.
\<close>

definition PolarsSeries_dtype ::
  "('n \<Rightarrow> 'nd) \<Rightarrow> ('nd \<Rightarrow> 'v \<Rightarrow> int list \<Rightarrow> 'd) \<Rightarrow> ('n, 'v) PolarsSeries \<Rightarrow> 'd" where
  "PolarsSeries_dtype native_dtype native_to_narwhals_dtype self =
     native_to_narwhals_dtype (native_dtype (native_series self)) (version self)
       (backend_version self)"

definition PolarsSeries_median ::
  "('n \<Rightarrow> 'nd) \<Rightarrow> ('nd \<Rightarrow> 'v \<Rightarrow> int list \<Rightarrow> 'd) \<Rightarrow> ('d \<Rightarrow> bool) \<Rightarrow> ('n \<Rightarrow> 'e + 'c) \<Rightarrow>
   ('n, 'v) PolarsSeries \<Rightarrow> 'e error + 'c" where
  "PolarsSeries_median native_dtype native_to_narwhals_dtype is_numeric native_median self =
     (if \<not> is_numeric (PolarsSeries_dtype native_dtype native_to_narwhals_dtype self)
      then Inl InvalidOperationError
      else native (native_median (native_series self)))"

subsection \<open>Binary operators\<close>

text \<open>
  Modelled from the spec: \<^verbatim>\<open>extract_native\<close> is a helper of \<^verbatim>\<open>narwhals._polars.utils\<close>,
  which is not among the source files.  In the specification's words (section 4.4, step
  1) an argument that is itself an adapter-wrapped object is unwrapped to its native
  counterpart; any other argument is passed on as it is.  It sees the argument only,
  not the series the method is called on.
\<close>

definition extract_native :: "('s, 'f, 'c, 'v) adapter_obj \<Rightarrow> ('s, 'f, 'c) native_obj" where
  "extract_native obj =
     (case obj of
        WSeries s \<Rightarrow> NSeries (native_series s)
      | WDataFrame d \<Rightarrow> NDataFrame (native_frame d)
      | WScalar c \<Rightarrow> NScalar c)"

text \<open>The binary operators \<^verbatim>\<open>PolarsSeries\<close> defines, named after their methods.\<close>

datatype pl_binop =
    Pl_eq | Pl_ne | Pl_ge | Pl_gt | Pl_le | Pl_lt | Pl_and | Pl_or
  | Pl_add | Pl_radd | Pl_sub | Pl_rsub | Pl_mul | Pl_rmul | Pl_pow | Pl_rpow

text \<open>
  Every operator has the same body: unwrap the operand, call the native operator, wrap
  the result; \<^verbatim>\<open>__rpow__\<close> also restores the name on a backend older than 1.16.1.
  \<open>native_binop op n x\<close> stands for the engine's method.  Beside the outcome, the model
  returns the native binary calls the method has made, in order.
\<close>

definition PolarsSeries_binop ::
  "(pl_binop \<Rightarrow> 'a pl_series \<Rightarrow> ('s, 'f, 'c) native_obj \<Rightarrow> 'e + 'b pl_series) \<Rightarrow>
   pl_binop \<Rightarrow> ('a pl_series, 'v) PolarsSeries \<Rightarrow> ('s, 'f, 'c, 'v) adapter_obj \<Rightarrow>
   pl_binop list \<times> ('e error + ('b pl_series, 'v) PolarsSeries)" where
  "PolarsSeries_binop native_binop op self other =
     (let other' = extract_native other;
          r = native (native_binop op (native_series self) other')
      in ([op],
          bind_err r (\<lambda>result.
            Inr (from_native_series self
                   (if op = Pl_rpow \<and> tuple_lt (backend_version self) [1, 16, 1]
                    then pl_alias result (PolarsSeries_name self)
                    else result)))))"

subsection \<open>Sort\<close>

text \<open>
  \<^verbatim>\<open>sort\<close>.  \<open>native_sort descending nulls_last n\<close> stands for the engine's
  \<^verbatim>\<open>Series.sort\<close>; its second argument is \<open>None\<close> when the adapter does not pass
  \<^verbatim>\<open>nulls_last\<close> (the engine before 0.20.6 does not take it).
\<close>

definition PolarsSeries_sort ::
  "(bool \<Rightarrow> bool option \<Rightarrow> 'a pl_series \<Rightarrow> string + 'a pl_series) \<Rightarrow>
   ('a pl_series, 'v) PolarsSeries \<Rightarrow> bool \<Rightarrow> bool \<Rightarrow>
   string error + ('a pl_series, 'v) PolarsSeries" where
  "PolarsSeries_sort native_sort self descending nulls_last =
     bind_err
       (if tuple_lt (backend_version self) [0, 20, 6] then
          bind_err (native (native_sort descending None (native_series self)))
            (\<lambda>result.
               if nulls_last then
                 (let is_null = pl_is_null result in
                  bind_err (native (pl_filter result (pl_invert is_null))) (\<lambda>non_null.
                  bind_err (native (pl_filter result is_null)) (\<lambda>null.
                  native (pl_concat [non_null, null]))))
               else Inr result)
        else native (native_sort descending (Some nulls_last) (native_series self)))
       (\<lambda>result. Inr (from_native_series self result))"

subsection \<open>Scatter\<close>

text \<open>
  \<^verbatim>\<open>scatter\<close> clones the native series and lets the engine change the clone in place.
  To follow which object is changed, native series live in a store (a list; an
  address is an index into it) and an adapter series wraps an address.  \<^verbatim>\<open>clone\<close>
  puts a copy of the object at a new address.  \<open>native_scatter d indices values\<close>
  stands for the engine's in-place \<^verbatim>\<open>Series.scatter\<close> on an object with content \<open>d\<close>:
  it gives the content the object has afterwards, and the exception if it raised.
\<close>

definition pl_clone :: "'d list \<Rightarrow> nat \<Rightarrow> 'd list \<times> nat" where
  "pl_clone store a = (store @ [store ! a], length store)"

definition deref :: "'d list \<Rightarrow> (nat, 'f, 'c) native_obj \<Rightarrow> ('d, 'f, 'c) native_obj" where
  "deref store obj =
     (case obj of
        NSeries a \<Rightarrow> NSeries (store ! a)
      | NDataFrame d \<Rightarrow> NDataFrame d
      | NScalar c \<Rightarrow> NScalar c)"

definition PolarsSeries_scatter ::
  "('d \<Rightarrow> 'i \<Rightarrow> ('d, 'f, 'c) native_obj \<Rightarrow> 'd \<times> 'e option) \<Rightarrow>
   'd list \<Rightarrow> (nat, 'v) PolarsSeries \<Rightarrow> 'i \<Rightarrow> (nat, 'f, 'c, 'v) adapter_obj \<Rightarrow>
   'd list \<times> ('e error + (nat, 'v) PolarsSeries)" where
  "PolarsSeries_scatter native_scatter store self indices values =
     (let values' = extract_native values in
      case pl_clone store (native_series self) of
        (store1, s) \<Rightarrow>
          (case native_scatter (store1 ! s) indices (deref store1 values') of
             (d, exc) \<Rightarrow>
               (let store2 = store1[s := d] in
                case exc of
                  Some e \<Rightarrow> (store2, Inl (NativeError e))
                | None \<Rightarrow> (store2, Inr (from_native_series self s)))))"

subsection \<open>Value counts\<close>

text \<open>
  The expressions the adapter builds for the engine's \<^verbatim>\<open>select\<close>: \<^verbatim>\<open>pl.col\<close>,
  \<^verbatim>\<open>pl.sum\<close> and the quotient of two expressions.
\<close>

datatype pl_expr = Col string | Sum string | Div pl_expr pl_expr

text \<open>
  A Python dict display: the pairs are inserted from left to right, and a key that is
  already there keeps its place and takes the new value.
\<close>

fun dict_set :: "string \<Rightarrow> 'x \<Rightarrow> (string \<times> 'x) list \<Rightarrow> (string \<times> 'x) list" where
  "dict_set k v [] = [(k, v)]"
| "dict_set k v ((k', v') # d) = (if k' = k then (k', v) # d else (k', v') # dict_set k v d)"

definition py_dict :: "(string \<times> 'x) list \<Rightarrow> (string \<times> 'x) list" where
  "py_dict items = foldl (\<lambda>d (k, v). dict_set k v d) [] items"

text \<open>Python's \<^verbatim>\<open>name or default\<close> for a name that is \<^verbatim>\<open>None\<close> or a string.\<close>

definition py_or :: "string option \<Rightarrow> string \<Rightarrow> string" where
  "py_or name dflt = (case name of None \<Rightarrow> dflt | Some n \<Rightarrow> if n = [] then dflt else n)"

text \<open>
  \<^verbatim>\<open>value_counts\<close>.  \<open>native_value_counts n sort parallel extra\<close> stands for the
  engine's \<^verbatim>\<open>Series.value_counts\<close>, \<open>extra\<close> holding the arguments \<^verbatim>\<open>name\<close> and
  \<^verbatim>\<open>normalize\<close> when the adapter passes them; \<open>native_select t kwargs\<close> stands for
  \<^verbatim>\<open>t.select(**kwargs)\<close>.
\<close>

definition PolarsSeries_value_counts ::
  "('a pl_series \<Rightarrow> bool \<Rightarrow> bool \<Rightarrow> (string option \<times> bool) option \<Rightarrow> 'e + 'f) \<Rightarrow>
   ('f \<Rightarrow> (string \<times> pl_expr) list \<Rightarrow> 'e + 'f) \<Rightarrow>
   ('a pl_series, 'v) PolarsSeries \<Rightarrow> bool \<Rightarrow> bool \<Rightarrow> string option \<Rightarrow> bool \<Rightarrow>
   'e error + ('f, 'v) PolarsDataFrame" where
  "PolarsSeries_value_counts native_value_counts native_select self sort' parallel name normalize' =
     bind_err
       (if tuple_lt (backend_version self) [1, 0, 0] then
          (let value_name = py_or name (if normalize' then ''proportion'' else ''count'') in
           bind_err (native (native_value_counts (native_series self) sort' parallel None))
             (\<lambda>result.
                native (native_select result
                  (py_dict
                     [(pl_name (native_series self), Col (pl_name (native_series self))),
                      (value_name,
                       if normalize' then Div (Col ''count'') (Sum ''count'')
                       else Col ''count'')]))))
        else native (native_value_counts (native_series self) sort' parallel
                       (Some (name, normalize'))))
       (\<lambda>result. Inr \<lparr>native_frame = result, df_backend_version = backend_version self,
                      df_version = version self\<rparr>)"

section \<open>The pandas-like adapter\<close>

text \<open>
  A pandas name is any hashable object: a string, or another object whose text
  Python's built-in \<^verbatim>\<open>str\<close> gives (the parameter \<open>str_obj\<close>).
\<close>

datatype 'k label = Str string | Obj 'k

fun py_str :: "('k \<Rightarrow> string) \<Rightarrow> 'k label \<Rightarrow> string" where
  "py_str str_obj (Str s) = s"
| "py_str str_obj (Obj k) = str_obj k"

text \<open>
  The cells of a native pandas series: the null \<^verbatim>\<open>pd.NA\<close>, the float \<^verbatim>\<open>NaN\<close>, or
  a value.  The native series has a name (or \<^verbatim>\<open>None\<close>), an index, its cells, and a
  dtype of which the adapter only asks \<^verbatim>\<open>is_extension_array_dtype\<close>.
\<close>

datatype 'a cell = NA | NaN | Val 'a

record ('k, 'a) pd_series =
  pd_name :: "'k label option"
  pd_index :: "int list"
  pd_values :: "'a cell list"
  pd_ext :: bool

record ('k, 'a) PandasSeries =
  p_name :: string
  p_series :: "('k, 'a) pd_series"
  p_implementation :: string
  p_use_copy_false :: bool

text \<open>
  \<^verbatim>\<open>PandasSeries.__init__\<close>.  \<open>pd_version\<close> is the parsed version of the installed
  pandas, which the constructor reads when the implementation is pandas itself.
\<close>

definition PandasSeries_init ::
  "('k \<Rightarrow> string) \<Rightarrow> int list \<Rightarrow> ('k, 'a) pd_series \<Rightarrow> string \<Rightarrow> ('k, 'a) PandasSeries" where
  "PandasSeries_init str_obj pd_version series implementation =
     \<lparr>p_name = (case pd_name series of Some n \<Rightarrow> py_str str_obj n | None \<Rightarrow> ''''),
      p_series = series,
      p_implementation = implementation,
      p_use_copy_false = (implementation = ''pandas'' \<and> tuple_lt pd_version [3, 0, 0])\<rparr>"

definition from_series ::
  "('k \<Rightarrow> string) \<Rightarrow> int list \<Rightarrow> ('k, 'a) PandasSeries \<Rightarrow> ('k, 'b) pd_series \<Rightarrow> ('k, 'b) PandasSeries" where
  "from_series str_obj pd_version self series =
     PandasSeries_init str_obj pd_version series (p_implementation self)"

definition PandasSeries_name :: "('k, 'a) PandasSeries \<Rightarrow> string" where
  "PandasSeries_name self = p_name self"

text \<open>
  \<^verbatim>\<open>_rename\<close> calls the engine's \<^verbatim>\<open>rename\<close>, with \<^verbatim>\<open>copy=False\<close> where the
  installed pandas still takes it.  \<open>pd_rename\<close> is the engine's method: it gives the
  series under the new name (the flag decides about sharing the data, not about the
  result).
\<close>

definition pd_rename ::
  "('k, 'a) pd_series \<Rightarrow> 'k label option \<Rightarrow> bool option \<Rightarrow> ('k, 'a) pd_series" where
  "pd_rename series name copy = series\<lparr>pd_name := name\<rparr>"

definition rename_series ::
  "('k, 'b) PandasSeries \<Rightarrow> ('k, 'a) pd_series \<Rightarrow> 'k label option \<Rightarrow> ('k, 'a) pd_series" where
  "rename_series self series name =
     (if p_use_copy_false self then pd_rename series name (Some False)
      else pd_rename series name None)"

subsection \<open>Binary operators\<close>

text \<open>
  The right-hand operand of a binary operation, as the specification's data model
  has it (of a series of another engine nothing is looked at), and what the validator
  hands to the engine.
\<close>

datatype ('k, 'a, 'c) operand =
    Scalar 'c
  | SameEngineSeries "('k, 'a) PandasSeries"
  | ForeignEngineSeries

datatype ('k, 'a, 'c) native_operand = NativeScalar 'c | NativeSeries "('k, 'a) pd_series"

text \<open>
  Modelled from the spec: \<^verbatim>\<open>validate_column_comparand\<close> is a helper of
  \<^verbatim>\<open>narwhals._pandas_like.utils\<close>, which is not among the source files.  This is the
  Comparand Aligner of the specification (section 4.2), with its cases in the
  specification's order: a scalar passes unchanged; a same-engine series whose shape
  (length and index) matches passes as its native object; a same-engine series of
  length 1 is broadcast where the engine supports it (the flag \<open>broadcast\<close>) and is a
  ShapeMismatch otherwise; a series of another engine is a CrossEngineOperand; any other
  disagreement of shapes is a ShapeMismatch.  The length of a native series is the
  length of its index.
\<close>

definition validate_column_comparand ::
  "bool \<Rightarrow> int list \<Rightarrow> ('k, 'a, 'c) operand \<Rightarrow> 'e error + ('k, 'a, 'c) native_operand" where
  "validate_column_comparand broadcast index other =
     (case other of
        Scalar c \<Rightarrow> Inr (NativeScalar c)
      | SameEngineSeries s \<Rightarrow>
          if pd_index (p_series s) = index then Inr (NativeSeries (p_series s))
          else if length (pd_index (p_series s)) = 1 then
            (if broadcast then Inr (NativeSeries (p_series s)) else Inl ShapeMismatch)
          else Inl ShapeMismatch
      | ForeignEngineSeries \<Rightarrow> Inl CrossEngineOperand)"

text \<open>The binary operators \<^verbatim>\<open>PandasSeries\<close> defines, named after their methods.\<close>

datatype pd_binop =
    Pd_eq | Pd_ne | Pd_ge | Pd_gt | Pd_le | Pd_lt | Pd_and | Pd_rand | Pd_or | Pd_ror
  | Pd_add | Pd_radd | Pd_sub | Pd_rsub | Pd_mul | Pd_rmul | Pd_truediv | Pd_rtruediv
  | Pd_floordiv | Pd_rfloordiv | Pd_pow | Pd_rpow | Pd_mod | Pd_rmod

text \<open>
  Every operator has the same body: validate the operand against the index of the
  series, call the native operator, restore the name, wrap.  As for the Polars adapter
  the model returns the native binary calls made beside the outcome.
\<close>

definition PandasSeries_binop ::
  "('k \<Rightarrow> string) \<Rightarrow> int list \<Rightarrow> bool \<Rightarrow>
   (pd_binop \<Rightarrow> ('k, 'a) pd_series \<Rightarrow> ('k, 'a, 'c) native_operand \<Rightarrow> 'e + ('k, 'b) pd_series) \<Rightarrow>
   pd_binop \<Rightarrow> ('k, 'a) PandasSeries \<Rightarrow> ('k, 'a, 'c) operand \<Rightarrow>
   pd_binop list \<times> ('e error + ('k, 'b) PandasSeries)" where
  "PandasSeries_binop str_obj pd_version broadcast native_binop op self other =
     (let ser = p_series self in
      case validate_column_comparand broadcast (pd_index ser) other of
        Inl e \<Rightarrow> ([], Inl e)
      | Inr other' \<Rightarrow>
          ([op],
           bind_err (native (native_binop op ser other'))
             (\<lambda>r. Inr (from_series str_obj pd_version self
                          (rename_series self r (pd_name ser))))))"

subsection \<open>Median and is_nan\<close>

definition PandasSeries_median ::
  "(('k, 'a) pd_series \<Rightarrow> 'e + 'c) \<Rightarrow> ('k, 'a) PandasSeries \<Rightarrow> 'e error + 'c" where
  "PandasSeries_median native_median self = (let ser = p_series self in native (native_median ser))"

text \<open>
  The engine operations \<^verbatim>\<open>is_nan\<close> composes, cell by cell.  On an extension array
  \<^verbatim>\<open>!=\<close> gives the null where an operand is null, and a NaN differs from everything,
  itself included; pandas refuses to compare series with different indexes.
  \<^verbatim>\<open>fillna\<close> replaces the missing cells, \<^verbatim>\<open>isna\<close> marks them (for pandas a NaN is
  missing as well).  They belong to the engine, not to the repository.
\<close>

fun cell_ne :: "'a cell \<Rightarrow> 'a cell \<Rightarrow> bool cell" where
  "cell_ne NA y = NA"
| "cell_ne x NA = NA"
| "cell_ne NaN y = Val True"
| "cell_ne x NaN = Val True"
| "cell_ne (Val x) (Val y) = Val (x \<noteq> y)"

definition pd_ne :: "('k, 'a) pd_series \<Rightarrow> ('k, 'a) pd_series \<Rightarrow> string + ('k, bool) pd_series" where
  "pd_ne a b =
     (if pd_index a \<noteq> pd_index b \<or> length (pd_values a) \<noteq> length (pd_values b)
      then Inl ''ValueError''
      else Inr \<lparr>pd_name = pd_name a, pd_index = pd_index a,
                pd_values = map (\<lambda>(x, y). cell_ne x y) (zip (pd_values a) (pd_values b)),
                pd_ext = True\<rparr>)"

fun cell_fill :: "'a \<Rightarrow> 'a cell \<Rightarrow> 'a cell" where
  "cell_fill v (Val x) = Val x"
| "cell_fill v c = Val v"

definition pd_fillna :: "('k, 'a) pd_series \<Rightarrow> 'a \<Rightarrow> ('k, 'a) pd_series" where
  "pd_fillna s v = s\<lparr>pd_values := map (cell_fill v) (pd_values s)\<rparr>"

fun cell_isna :: "'a cell \<Rightarrow> bool" where
  "cell_isna (Val x) = False"
| "cell_isna c = True"

definition pd_isna :: "('k, 'a) pd_series \<Rightarrow> ('k, bool) pd_series" where
  "pd_isna s =
     \<lparr>pd_name = pd_name s, pd_index = pd_index s,
      pd_values = map (\<lambda>c. Val (cell_isna c)) (pd_values s), pd_ext = False\<rparr>"

definition PandasSeries_is_nan ::
  "('k \<Rightarrow> string) \<Rightarrow> int list \<Rightarrow> ('k, 'a) PandasSeries \<Rightarrow> string error + ('k, bool) PandasSeries" where
  "PandasSeries_is_nan str_obj pd_version self =
     (let ser = p_series self in
      if pd_ext ser then
        bind_err (native (pd_ne ser ser))
          (\<lambda>r. Inr (from_series str_obj pd_version self (pd_fillna r False)))
      else Inr (from_series str_obj pd_version self (pd_isna ser)))"

section \<open>Vocabulary of the properties\<close>

text \<open>The non-null cells of a column, in order, and whether every null stands at its end.\<close>

fun non_null :: "'a option list \<Rightarrow> 'a list" where
  "non_null [] = []"
| "non_null (None # xs) = non_null xs"
| "non_null (Some x # xs) = x # non_null xs"

definition nulls_at_end :: "'a option list \<Rightarrow> bool" where
  "nulls_at_end xs = list_all (\<lambda>x. x = None) (dropWhile (\<lambda>x. x \<noteq> None) xs)"

definition ordered :: "bool \<Rightarrow> 'a::linorder list \<Rightarrow> bool" where
  "ordered descending ys = (if descending then sorted (rev ys) else sorted ys)"

text \<open>
  What the adapter expects of the engine's \<^verbatim>\<open>sort\<close>, whatever its version: the result
  \<open>r\<close> keeps the name of the series \<open>s\<close>, holds the same cells, and its non-null cells
  are in the order asked for.  Where the nulls stand is left open.
\<close>

definition sorts_values :: "bool \<Rightarrow> 'a::linorder pl_series \<Rightarrow> 'a pl_series \<Rightarrow> bool" where
  "sorts_values descending s r =
     (pl_name r = pl_name s \<and> mset (pl_values r) = mset (pl_values s)
      \<and> ordered descending (non_null (pl_values r)))"

text \<open>
  An engine \<^verbatim>\<open>sort\<close> to run the adapter on: it puts the nulls last when it is given
  \<^verbatim>\<open>nulls_last=True\<close> and first otherwise.
\<close>

definition engine_sort ::
  "bool \<Rightarrow> bool option \<Rightarrow> 'a::linorder pl_series \<Rightarrow> string + 'a pl_series" where
  "engine_sort descending nulls_last s =
     (let vs = sort (non_null (pl_values s));
          vals = map Some (if descending then rev vs else vs);
          nulls = filter (\<lambda>x. x = None) (pl_values s)
      in Inr \<lparr>pl_name = pl_name s,
               pl_values = (if nulls_last = Some True then vals @ nulls else nulls @ vals)\<rparr>)"

text \<open>
  An engine \<^verbatim>\<open>scatter\<close> to run the adapter on: it writes a scalar at the given
  positions, and raises when a position is out of bounds or the value is not a scalar.
\<close>

definition engine_scatter ::
  "'a option list \<Rightarrow> nat list \<Rightarrow> ('a option list, 'f, 'a) native_obj \<Rightarrow>
   'a option list \<times> string option" where
  "engine_scatter d indices x =
     (case x of
        NScalar c \<Rightarrow>
          if list_all (\<lambda>i. i < length d) indices
          then (foldl (\<lambda>acc i. acc[i := Some c]) d indices, None)
          else (d, Some ''OutOfBoundsError'')
      | NSeries m \<Rightarrow> (d, Some ''TypeError'')
      | NDataFrame f \<Rightarrow> (d, Some ''TypeError''))"

section \<open>Properties\<close>

text \<open>
  C9.  The name of an adapter series is never absent.  On the pandas-like adapter the
  constructor stores the empty string when the native name is \<^verbatim>\<open>None\<close> and the
  native name converted with \<^verbatim>\<open>str\<close> otherwise, and every adapter series is built by
  that constructor.  On the Polars adapter the name is the native series' name, which
  is a string already.
\<close>

theorem name_never_absent:
  "PandasSeries_name (PandasSeries_init str_obj pd_version series implementation) =
     (case pd_name series of None \<Rightarrow> '''' | Some n \<Rightarrow> py_str str_obj n)
   \<and> PandasSeries_name (from_series str_obj pd_version self series) =
     (case pd_name series of None \<Rightarrow> '''' | Some n \<Rightarrow> py_str str_obj n)
   \<and> PolarsSeries_name pself = pl_name (native_series pself)"
  by (simp add: PandasSeries_name_def PandasSeries_init_def from_series_def
      PolarsSeries_name_def split: option.split)

text \<open>
  C8.  Attribute access on the Polars adapter series: the reserved name \<^verbatim>\<open>as_py\<close>
  raises \<^verbatim>\<open>AttributeError\<close> and reaches no native call; every other name that the class
  does not define gives the forwarding closure, which unwraps its arguments, calls the
  native attribute of that name and wraps what comes back.
\<close>

theorem getattr_reserved_name_rejected:
  "PolarsSeries_getattr native_call extract_args_kwargs self ''as_py'' = Inl AttributeError
   \<and> (attr \<noteq> ''as_py'' \<longrightarrow>
        (\<exists>func. PolarsSeries_getattr native_call extract_args_kwargs self attr = Inr func
           \<and> (\<forall>args kwargs. func args kwargs =
                 (case extract_args_kwargs args kwargs of
                    (args', kwargs') \<Rightarrow>
                      bind_err (native (native_call (native_series self) attr args' kwargs'))
                        (\<lambda>r. Inr (from_native_object self r))))))"
  by (simp add: PolarsSeries_getattr_def bind_err_def split: prod.split sum.split)

theorem getattr_reserved_name_rejected_witness:
  "''sum'' \<noteq> ''as_py''
   \<and> (\<exists>func. PolarsSeries_getattr
          (\<lambda>(n :: int list) (attr :: string) (args :: int list) (kwargs :: (string \<times> int) list).
             (Inr (NScalar (sum_list n)) :: string + (int list, unit, int) native_obj))
          (\<lambda>(args :: int list) (kwargs :: (string \<times> int) list). (args, kwargs))
          \<lparr>native_series = [1, 2, 3], backend_version = [1, 0, 0], version = ()\<rparr> ''sum'' = Inr func
        \<and> func [] [] = Inr (WScalar 6))"
  using getattr_reserved_name_rejected
    [of "\<lambda>(n :: int list) (attr :: string) (args :: int list) (kwargs :: (string \<times> int) list).
             (Inr (NScalar (sum_list n)) :: string + (int list, unit, int) native_obj)"
        "\<lambda>(args :: int list) (kwargs :: (string \<times> int) list). (args, kwargs)"
        "\<lparr>native_series = [1, 2, 3], backend_version = [1, 0, 0], version = ()\<rparr>"
        "''sum''"]
  by (auto simp add: bind_err_def native_def from_native_object_def)

text \<open>
  C5.  The claim is that a namespace proxy classifies the native result and hands a plain
  scalar back unwrapped.  The proxies do not classify: whatever the native method of
  \<^verbatim>\<open>.dt\<close>, \<^verbatim>\<open>.str\<close> or \<^verbatim>\<open>.cat\<close> returns goes to \<^verbatim>\<open>_from_native_series\<close>, so a scalar
  \<open>c\<close> comes back as an adapter series whose wrapped object is \<open>c\<close>.  The forwarder of
  the series itself, given the same native result, returns \<open>c\<close> unwrapped.
\<close>

theorem namespace_proxy_wraps_scalar:
  "PolarsSeriesDateTimeNamespace_getattr (\<lambda>n a args kwargs. Inr (NScalar c))
       extract_args_kwargs (PolarsSeries_dt self) attr args kwargs
     = Inr \<lparr>native_series = NScalar c, backend_version = backend_version self,
            version = version self\<rparr>
   \<and> PolarsSeriesStringNamespace_getattr (\<lambda>n a args kwargs. Inr (NScalar c))
       extract_args_kwargs (PolarsSeries_str self) attr args kwargs
     = Inr \<lparr>native_series = NScalar c, backend_version = backend_version self,
            version = version self\<rparr>
   \<and> PolarsSeriesCatNamespace_getattr (\<lambda>n a args kwargs. Inr (NScalar c))
       extract_args_kwargs (PolarsSeries_cat self) attr args kwargs
     = Inr \<lparr>native_series = NScalar c, backend_version = backend_version self,
            version = version self\<rparr>
   \<and> (case PolarsSeries_getattr (\<lambda>n a args kwargs. Inr (NScalar c))
               extract_args_kwargs self ''max'' of
         Inl e \<Rightarrow> Inl e
       | Inr func \<Rightarrow> func args kwargs) = Inr (WScalar c)"
  by (simp add: PolarsSeriesDateTimeNamespace_getattr_def PolarsSeriesStringNamespace_getattr_def
      PolarsSeriesCatNamespace_getattr_def PolarsSeries_getattr_def PolarsSeries_dt_def
      PolarsSeries_str_def PolarsSeries_cat_def native_def from_native_series_def
      from_native_object_def split: prod.split)

text \<open>
  For a version of three non-negative components, as the engines' version strings give,
  being below \<open>(1,)\<close> and being below \<open>(1, 0, 0)\<close> are the same.
\<close>

lemma tuple_lt_three:
  "length v = 3 \<Longrightarrow> \<forall>x\<in>set v. 0 \<le> x \<Longrightarrow> tuple_lt v [1] = tuple_lt v [1, 0, 0]"
proof -
  assume len: "length v = 3" and nn: "\<forall>x\<in>set v. 0 \<le> x"
  from len obtain a b c where v: "v = [a, b, c]"
    by (cases v; cases "tl v"; cases "tl (tl v)") auto
  with nn show ?thesis by auto
qed

text \<open>
  C2 (as amended).  The two version-gated operations test the backend version against
  the tuple \<open>(1,)\<close>.  Below it \<^verbatim>\<open>ewm_mean\<close> raises \<^verbatim>\<open>NotImplementedError\<close> (the
  specification's UnsupportedByVersion), and so does \<^verbatim>\<open>replace_strict\<close> when no
  \<^verbatim>\<open>return_dtype\<close> is given or the given one translates; at or above it neither raises
  that error.  \<^verbatim>\<open>replace_strict\<close> translates a given \<^verbatim>\<open>return_dtype\<close> before it tests
  the version, so a dtype that does not translate ends the call with the translator's
  error on every version.  For a version of three non-negative components the test is
  the same as being below \<open>(1, 0, 0)\<close>.
\<close>

theorem version_gate:
  "(tuple_lt (backend_version self) [1] \<longrightarrow>
      PolarsSeries_ewm_mean native_ewm_mean self com span' half_life alpha adjust min_periods
          ignore_nulls = Inl NotImplementedError
      \<and> (return_dtype = None \<or>
           (\<exists>d nd. return_dtype = Some d \<and> narwhals_to_native_dtype d (version self) = Some nd) \<longrightarrow>
         PolarsSeries_replace_strict narwhals_to_native_dtype native_replace_strict self old new
             return_dtype = Inl NotImplementedError))
   \<and> (\<not> tuple_lt (backend_version self) [1] \<longrightarrow>
        PolarsSeries_ewm_mean native_ewm_mean self com span' half_life alpha adjust min_periods
            ignore_nulls \<noteq> Inl NotImplementedError
        \<and> PolarsSeries_replace_strict narwhals_to_native_dtype native_replace_strict self old new
            return_dtype \<noteq> Inl NotImplementedError)
   \<and> (\<forall>d. return_dtype = Some d \<and> narwhals_to_native_dtype d (version self) = None \<longrightarrow>
        PolarsSeries_replace_strict narwhals_to_native_dtype native_replace_strict self old new
            return_dtype = Inl UnsupportedDtype)
   \<and> (length (backend_version self) = 3 \<and> (\<forall>x\<in>set (backend_version self). 0 \<le> x) \<longrightarrow>
        tuple_lt (backend_version self) [1] = tuple_lt (backend_version self) [1, 0, 0])"
  using tuple_lt_three[of "backend_version self"]
  by (auto simp add: PolarsSeries_ewm_mean_def PolarsSeries_replace_strict_def bind_err_def
      native_def split: option.splits sum.splits)

text \<open>
  The claim as stated fails: on backend version \<open>(0, 9, 9)\<close>, below the threshold,
  \<^verbatim>\<open>replace_strict\<close> with a \<^verbatim>\<open>return_dtype\<close> the translator rejects ends with the
  translator's error, not with the version error.
\<close>

theorem version_gate_counterexample:
  "PolarsSeries_replace_strict (\<lambda>(d :: string) (v :: unit). (None :: string option))
     (\<lambda>(n :: int option list) (old :: int list) (new :: int list) (dt :: string option).
        (Inr n :: string + int option list))
     \<lparr>native_series = [Some 1, Some 2], backend_version = [0, 9, 9], version = ()\<rparr>
     [1] [2] (Some ''Enum'') = Inl UnsupportedDtype
   \<and> tuple_lt [0, 9, 9] [1, 0, 0]"
  by (simp add: PolarsSeries_replace_strict_def bind_err_def)

theorem version_gate_witness:
  "tuple_lt [0, 9, 9] [1] \<and> \<not> tuple_lt [1, 0, 0] [1]
   \<and> tuple_lt [0, 9, 9] [1, 0, 0] \<and> \<not> tuple_lt [1, 0, 0] [1, 0, 0]
   \<and> PolarsSeries_replace_strict (\<lambda>(d :: string) (v :: unit). Some d)
        (\<lambda>(n :: int option list) (old :: int list) (new :: int list) (dt :: string option).
           (Inr n :: string + int option list))
        \<lparr>native_series = [Some 1, Some 2], backend_version = [0, 9, 9], version = ()\<rparr>
        [1] [2] (Some ''Int64'') = Inl NotImplementedError
   \<and> PolarsSeries_ewm_mean
        (\<lambda>(n :: int option list) (com :: rat option) (sp :: rat option) (hl :: rat option)
           (al :: rat option) (adj :: bool) (mp :: int) (ign :: bool).
           (Inr n :: string + int option list))
        \<lparr>native_series = [Some 1, Some 2], backend_version = [0, 9, 9], version = ()\<rparr>
        None None None (Some (1 / 2)) True 1 False = Inl NotImplementedError
   \<and> PolarsSeries_replace_strict (\<lambda>(d :: string) (v :: unit). Some d)
        (\<lambda>(n :: int option list) (old :: int list) (new :: int list) (dt :: string option).
           (Inr n :: string + int option list))
        \<lparr>native_series = [Some 1, Some 2], backend_version = [1, 0, 0], version = ()\<rparr>
        [1] [2] (Some ''Int64'') \<noteq> Inl NotImplementedError
   \<and> PolarsSeries_ewm_mean
        (\<lambda>(n :: int option list) (com :: rat option) (sp :: rat option) (hl :: rat option)
           (al :: rat option) (adj :: bool) (mp :: int) (ign :: bool).
           (Inr n :: string + int option list))
        \<lparr>native_series = [Some 1, Some 2], backend_version = [1, 0, 0], version = ()\<rparr>
        None None None (Some (1 / 2)) True 1 False \<noteq> Inl NotImplementedError"
  using
    version_gate
      [of "\<lparr>native_series = [Some 1, Some 2], backend_version = [0, 9, 9], version = ()\<rparr>"
          "\<lambda>(n :: int option list) (com :: rat option) (sp :: rat option) (hl :: rat option)
             (al :: rat option) (adj :: bool) (mp :: int) (ign :: bool).
             (Inr n :: string + int option list)"
          None None None "Some (1 / 2)" True 1 False
          "Some ''Int64''" "\<lambda>(d :: string) (v :: unit). Some d"
          "\<lambda>(n :: int option list) (old :: int list) (new :: int list) (dt :: string option).
             (Inr n :: string + int option list)"
          "[1]" "[2]"]
    version_gate
      [of "\<lparr>native_series = [Some 1, Some 2], backend_version = [1, 0, 0], version = ()\<rparr>"
          "\<lambda>(n :: int option list) (com :: rat option) (sp :: rat option) (hl :: rat option)
             (al :: rat option) (adj :: bool) (mp :: int) (ign :: bool).
             (Inr n :: string + int option list)"
          None None None "Some (1 / 2)" True 1 False
          "Some ''Int64''" "\<lambda>(d :: string) (v :: unit). Some d"
          "\<lambda>(n :: int option list) (old :: int list) (new :: int list) (dt :: string option).
             (Inr n :: string + int option list)"
          "[1]" "[2]"]
  by simp

text \<open>
  C4 (as amended).  On the Polars adapter \<^verbatim>\<open>median\<close> raises
  \<^verbatim>\<open>InvalidOperationError\<close> exactly when the dtype of the series is not numeric, and
  for a numeric dtype it gives what the native \<^verbatim>\<open>median\<close> gives.  The pandas-like
  adapter makes no dtype test: its \<^verbatim>\<open>median\<close> is the native call, whose result or
  exception comes back as it is, and it never raises \<^verbatim>\<open>InvalidOperationError\<close>.
\<close>

theorem median_invalid_operation:
  "(\<not> is_numeric (PolarsSeries_dtype native_dtype native_to_narwhals_dtype self) \<longrightarrow>
      PolarsSeries_median native_dtype native_to_narwhals_dtype is_numeric native_median self
        = Inl InvalidOperationError)
   \<and> (is_numeric (PolarsSeries_dtype native_dtype native_to_narwhals_dtype self) \<longrightarrow>
      PolarsSeries_median native_dtype native_to_narwhals_dtype is_numeric native_median self
        = native (native_median (native_series self))
      \<and> PolarsSeries_median native_dtype native_to_narwhals_dtype is_numeric native_median self
        \<noteq> Inl InvalidOperationError)
   \<and> PandasSeries_median pd_native_median pself = native (pd_native_median (p_series pself))
   \<and> PandasSeries_median pd_native_median pself \<noteq> Inl InvalidOperationError"
  by (auto simp add: PolarsSeries_median_def PandasSeries_median_def native_def split: sum.splits)

text \<open>
  The claim as stated fails on the pandas-like adapter: for a series of strings, with a
  native \<^verbatim>\<open>median\<close> that raises \<^verbatim>\<open>TypeError\<close> as pandas does on strings, the adapter
  ends with that native exception and not with \<^verbatim>\<open>InvalidOperationError\<close>.
\<close>

theorem median_invalid_operation_counterexample:
  "PandasSeries_median
     (\<lambda>(s :: (unit, string) pd_series). (Inl ''TypeError'' :: string + real))
     (PandasSeries_init (\<lambda>u. ''()'') [2, 2, 0]
        \<lparr>pd_name = None, pd_index = [0, 1], pd_values = [Val ''a'', Val ''b''], pd_ext = False\<rparr>
        ''pandas'')
   = Inl (NativeError ''TypeError'')"
  by (simp add: PandasSeries_median_def native_def PandasSeries_init_def)

theorem median_invalid_operation_witness:
  "\<not> (\<lambda>d. d = ''Int64'') (PolarsSeries_dtype (\<lambda>(n :: string \<times> int option list). fst n)
        (\<lambda>(nd :: string) (v :: unit) (bv :: int list). nd)
        \<lparr>native_series = (''String'', [Some 1]), backend_version = [1, 0, 0], version = ()\<rparr>)
   \<and> PolarsSeries_median (\<lambda>(n :: string \<times> int option list). fst n)
        (\<lambda>(nd :: string) (v :: unit) (bv :: int list). nd) (\<lambda>d. d = ''Int64'')
        (\<lambda>(n :: string \<times> int option list). (Inr 1 :: string + int))
        \<lparr>native_series = (''String'', [Some 1]), backend_version = [1, 0, 0], version = ()\<rparr>
      = Inl InvalidOperationError
   \<and> (\<lambda>d. d = ''Int64'') (PolarsSeries_dtype (\<lambda>(n :: string \<times> int option list). fst n)
        (\<lambda>(nd :: string) (v :: unit) (bv :: int list). nd)
        \<lparr>native_series = (''Int64'', [Some 1]), backend_version = [1, 0, 0], version = ()\<rparr>)
   \<and> PolarsSeries_median (\<lambda>(n :: string \<times> int option list). fst n)
        (\<lambda>(nd :: string) (v :: unit) (bv :: int list). nd) (\<lambda>d. d = ''Int64'')
        (\<lambda>(n :: string \<times> int option list). (Inr 1 :: string + int))
        \<lparr>native_series = (''Int64'', [Some 1]), backend_version = [1, 0, 0], version = ()\<rparr>
      = Inr 1"
  using
    median_invalid_operation
      [of "\<lambda>d. d = ''Int64''" "\<lambda>(n :: string \<times> int option list). fst n"
          "\<lambda>(nd :: string) (v :: unit) (bv :: int list). nd"
          "\<lparr>native_series = (''String'', [Some 1]), backend_version = [1, 0, 0], version = ()\<rparr>"
          "\<lambda>(n :: string \<times> int option list). (Inr 1 :: string + int)"
          "\<lambda>(s :: (unit, string) pd_series). (Inl ''TypeError'' :: string + real)"
          "PandasSeries_init (\<lambda>u. ''()'') [2, 2, 0]
             \<lparr>pd_name = None, pd_index = [0, 1], pd_values = [Val ''a'', Val ''b''],
               pd_ext = False\<rparr> ''pandas''"]
    median_invalid_operation
      [of "\<lambda>d. d = ''Int64''" "\<lambda>(n :: string \<times> int option list). fst n"
          "\<lambda>(nd :: string) (v :: unit) (bv :: int list). nd"
          "\<lparr>native_series = (''Int64'', [Some 1]), backend_version = [1, 0, 0], version = ()\<rparr>"
          "\<lambda>(n :: string \<times> int option list). (Inr 1 :: string + int)"
          "\<lambda>(s :: (unit, string) pd_series). (Inl ''TypeError'' :: string + real)"
          "PandasSeries_init (\<lambda>u. ''()'') [2, 2, 0]
             \<lparr>pd_name = None, pd_index = [0, 1], pd_values = [Val ''a'', Val ''b''],
               pd_ext = False\<rparr> ''pandas''"]
  by (simp add: PolarsSeries_dtype_def native_def)

text \<open>
  C3 (as amended).  On the pandas-like adapter every binary operator validates the
  operand before the native call: for a same-engine operand whose length differs from
  the length of the series and is not 1 the outcome is ShapeMismatch and no native
  binary call has been made.  On the Polars adapter every binary operator unwraps the
  operand and makes the native call, whatever the lengths; a shape error there is the
  engine's own exception, never the validator's ShapeMismatch.
\<close>

theorem binop_shape_check:
  "(length (pd_index (p_series other)) \<noteq> length (pd_index (p_series self))
      \<and> length (pd_index (p_series other)) \<noteq> 1 \<longrightarrow>
      PandasSeries_binop str_obj pd_version broadcast pd_native_binop op self
          (SameEngineSeries other) = ([], Inl ShapeMismatch))
   \<and> fst (PolarsSeries_binop native_binop pl_op pl_self pl_other) = [pl_op]
   \<and> snd (PolarsSeries_binop native_binop pl_op pl_self pl_other) \<noteq> Inl ShapeMismatch"
  by (auto simp add: PandasSeries_binop_def validate_column_comparand_def PolarsSeries_binop_def
      bind_err_def native_def Let_def split: sum.splits)

text \<open>
  The claim as stated fails on the Polars adapter: for series of lengths 3 and 5 the
  native \<^verbatim>\<open>__add__\<close> is called (here an engine that refuses unequal lengths, as
  Polars does), and the outcome is the engine's exception.
\<close>

theorem binop_shape_check_counterexample:
  "PolarsSeries_binop
     (\<lambda>(op :: pl_binop) (n :: int pl_series) (x :: (int pl_series, unit, int) native_obj).
        (case x of
           NSeries m \<Rightarrow>
             if length (pl_values m) = length (pl_values n) \<or> length (pl_values m) = 1
             then Inr n else Inl ''ShapeError''
         | NDataFrame d \<Rightarrow> Inl ''TypeError''
         | NScalar c \<Rightarrow> Inr n) :: string + int pl_series)
     Pl_add
     \<lparr>native_series = \<lparr>pl_name = ''a'', pl_values = [Some 1, Some 2, Some 3]\<rparr>,
      backend_version = [1, 0, 0], version = ()\<rparr>
     (WSeries \<lparr>native_series = \<lparr>pl_name = ''b'',
                pl_values = [Some 1, Some 2, Some 3, Some 4, Some 5]\<rparr>,
              backend_version = [1, 0, 0], version = ()\<rparr>)
   = ([Pl_add], Inl (NativeError ''ShapeError''))"
  by (simp add: PolarsSeries_binop_def extract_native_def native_def bind_err_def)

theorem binop_shape_check_witness:
  "length (pd_index (p_series (PandasSeries_init (\<lambda>u :: unit. ''()'') [2, 2, 0]
        \<lparr>pd_name = None, pd_index = [0, 1, 2, 3, 4],
          pd_values = [Val (1 :: int), Val 2, Val 3, Val 4, Val 5], pd_ext = False\<rparr> ''pandas'')))
     \<noteq> length (pd_index (p_series (PandasSeries_init (\<lambda>u :: unit. ''()'') [2, 2, 0]
        \<lparr>pd_name = None, pd_index = [0, 1, 2],
          pd_values = [Val (1 :: int), Val 2, Val 3], pd_ext = False\<rparr> ''pandas'')))
   \<and> length (pd_index (p_series (PandasSeries_init (\<lambda>u :: unit. ''()'') [2, 2, 0]
        \<lparr>pd_name = None, pd_index = [0, 1, 2, 3, 4],
          pd_values = [Val (1 :: int), Val 2, Val 3, Val 4, Val 5], pd_ext = False\<rparr> ''pandas'')))
     \<noteq> 1
   \<and> PandasSeries_binop (\<lambda>u :: unit. ''()'') [2, 2, 0] True
        (\<lambda>(op :: pd_binop) (n :: (unit, int) pd_series) (x :: (unit, int, int) native_operand).
           (Inr n :: string + (unit, int) pd_series))
        Pd_add
        (PandasSeries_init (\<lambda>u :: unit. ''()'') [2, 2, 0]
           \<lparr>pd_name = None, pd_index = [0, 1, 2],
             pd_values = [Val (1 :: int), Val 2, Val 3], pd_ext = False\<rparr> ''pandas'')
        (SameEngineSeries (PandasSeries_init (\<lambda>u :: unit. ''()'') [2, 2, 0]
           \<lparr>pd_name = None, pd_index = [0, 1, 2, 3, 4],
             pd_values = [Val (1 :: int), Val 2, Val 3, Val 4, Val 5], pd_ext = False\<rparr> ''pandas'')
         :: (unit, int, int) operand)
      = ([], Inl ShapeMismatch)"
  using binop_shape_check
    [of "PandasSeries_init (\<lambda>u :: unit. ''()'') [2, 2, 0]
           \<lparr>pd_name = None, pd_index = [0, 1, 2, 3, 4],
             pd_values = [Val (1 :: int), Val 2, Val 3, Val 4, Val 5], pd_ext = False\<rparr> ''pandas''"
        "PandasSeries_init (\<lambda>u :: unit. ''()'') [2, 2, 0]
           \<lparr>pd_name = None, pd_index = [0, 1, 2],
             pd_values = [Val (1 :: int), Val 2, Val 3], pd_ext = False\<rparr> ''pandas''"
        "\<lambda>u :: unit. ''()''" "[2, 2, 0]" True
        "\<lambda>(op :: pd_binop) (n :: (unit, int) pd_series) (x :: (unit, int, int) native_operand).
           (Inr n :: string + (unit, int) pd_series)"
        Pd_add
        "\<lambda>(op :: pl_binop) (n :: int pl_series) (x :: (int pl_series, unit, int) native_obj).
           (Inr n :: string + int pl_series)"
        Pl_add
        "\<lparr>native_series = \<lparr>pl_name = ''a'', pl_values = [Some 1, Some 2, Some 3]\<rparr>,
          backend_version = [1, 0, 0], version = ()\<rparr>"
        "WScalar 1"]
  by (simp add: PandasSeries_init_def)

text \<open>
  C6.  The claim is that below backend version \<open>(1, 0, 0)\<close> \<^verbatim>\<open>value_counts\<close> gives
  the table the newer branch gives, for every combination of its flags.  The older
  branch builds the keyword arguments of \<^verbatim>\<open>select\<close> as a dict with the keys
  \<^verbatim>\<open>self._native_series.name\<close> and \<^verbatim>\<open>value_name_\<close>.  When \<^verbatim>\<open>name\<close> is the name of the
  series the two keys are one, the dict keeps the second expression only, and the engine
  is asked for the single column \<open>n = col("count")\<close>: the column of the values is not
  selected.  Here on the series \<open>["a", "b", "a"]\<close> named \<open>n\<close>, backend version
  \<open>(0, 20, 31)\<close>, with \<^verbatim>\<open>sort=True, parallel=False, name="n", normalize=False\<close>.
\<close>

theorem value_counts_name_collision:
  "PolarsSeries_value_counts native_value_counts native_select
     \<lparr>native_series = \<lparr>pl_name = ''n'', pl_values = [Some ''a'', Some ''b'', Some ''a'']\<rparr>,
      backend_version = [0, 20, 31], version = v\<rparr>
     True False (Some ''n'') False
   = bind_err
       (native (native_value_counts
                  \<lparr>pl_name = ''n'', pl_values = [Some ''a'', Some ''b'', Some ''a'']\<rparr>
                  True False None))
       (\<lambda>counted.
          bind_err (native (native_select counted [(''n'', Col ''count'')]))
            (\<lambda>result. Inr \<lparr>native_frame = result, df_backend_version = [0, 20, 31],
                           df_version = v\<rparr>))"
  by (simp add: PolarsSeries_value_counts_def py_or_def py_dict_def bind_err_def
      split: sum.splits)

lemma cell_self_ne: "cell_fill False (cell_ne c c) = Val (c = NaN)"
  by (cases c) simp_all

lemma cell_isna_nan: "c \<noteq> NA \<Longrightarrow> cell_isna c = (c = NaN)"
  by (cases c) simp_all

text \<open>
  C7.  \<^verbatim>\<open>is_nan\<close> on the pandas-like adapter.  On an extension dtype the result is
  computed by comparing the series with itself and filling the nulls with
  \<^verbatim>\<open>False\<close>: a cell is marked exactly when it differs from itself, that is when it is
  NaN, and a null is not marked.  On a float series that is not of an extension dtype
  (its cells are numbers or NaN) the result marks exactly the NaN cells.  The
  instance that follows is the specification's example \<open>[1.0, NaN, 3.0]\<close>.
\<close>

theorem is_nan_marks_nan:
  "(pd_ext (p_series self) \<longrightarrow>
      (\<exists>r. PandasSeries_is_nan str_obj pd_version self = Inr r
         \<and> pd_values (p_series r)
             = map (\<lambda>c. cell_fill False (cell_ne c c)) (pd_values (p_series self))
         \<and> pd_values (p_series r) = map (\<lambda>c. Val (c = NaN)) (pd_values (p_series self))))
   \<and> (\<not> pd_ext (p_series self) \<and> NA \<notin> set (pd_values (p_series self)) \<longrightarrow>
      (\<exists>r. PandasSeries_is_nan str_obj pd_version self = Inr r
         \<and> pd_values (p_series r) = map (\<lambda>c. Val (c = NaN)) (pd_values (p_series self))))"
proof (intro conjI impI)
  assume ext: "pd_ext (p_series self)"
  have "map (\<lambda>(x, y). cell_fill False (cell_ne x y))
          (zip (pd_values (p_series self)) (pd_values (p_series self)))
        = map (\<lambda>c. cell_fill False (cell_ne c c)) (pd_values (p_series self))"
    by (simp add: zip_same_conv_map)
  with ext show "\<exists>r. PandasSeries_is_nan str_obj pd_version self = Inr r
         \<and> pd_values (p_series r)
             = map (\<lambda>c. cell_fill False (cell_ne c c)) (pd_values (p_series self))
         \<and> pd_values (p_series r) = map (\<lambda>c. Val (c = NaN)) (pd_values (p_series self))"
    by (simp add: PandasSeries_is_nan_def pd_ne_def pd_fillna_def native_def bind_err_def
        from_series_def PandasSeries_init_def cell_self_ne zip_same_conv_map comp_def Let_def)
next
  assume h: "\<not> pd_ext (p_series self) \<and> NA \<notin> set (pd_values (p_series self))"
  then have "map (\<lambda>c. Val (cell_isna c)) (pd_values (p_series self))
        = map (\<lambda>c. Val (c = NaN)) (pd_values (p_series self))"
  proof -
    have "\<And>c. c \<in> set (pd_values (p_series self)) \<Longrightarrow> cell_isna c = (c = NaN)"
      using h cell_isna_nan by metis
    then show ?thesis by simp
  qed
  with h show "\<exists>r. PandasSeries_is_nan str_obj pd_version self = Inr r
         \<and> pd_values (p_series r) = map (\<lambda>c. Val (c = NaN)) (pd_values (p_series self))"
    by (simp add: PandasSeries_is_nan_def pd_isna_def from_series_def PandasSeries_init_def Let_def)
qed

theorem is_nan_marks_nan_witness:
  "\<not> pd_ext (p_series (PandasSeries_init (\<lambda>u :: unit. ''()'') [2, 2, 0]
        \<lparr>pd_name = None, pd_index = [0, 1, 2],
          pd_values = [Val (1 :: real), NaN, Val 3], pd_ext = False\<rparr> ''pandas''))
   \<and> NA \<notin> set (pd_values (p_series (PandasSeries_init (\<lambda>u :: unit. ''()'') [2, 2, 0]
        \<lparr>pd_name = None, pd_index = [0, 1, 2],
          pd_values = [Val (1 :: real), NaN, Val 3], pd_ext = False\<rparr> ''pandas'')))
   \<and> (\<exists>r. PandasSeries_is_nan (\<lambda>u :: unit. ''()'') [2, 2, 0]
          (PandasSeries_init (\<lambda>u :: unit. ''()'') [2, 2, 0]
            \<lparr>pd_name = None, pd_index = [0, 1, 2],
              pd_values = [Val (1 :: real), NaN, Val 3], pd_ext = False\<rparr> ''pandas'') = Inr r
        \<and> pd_values (p_series r) = [Val False, Val True, Val False])
   \<and> pd_ext (p_series (PandasSeries_init (\<lambda>u :: unit. ''()'') [2, 2, 0]
        \<lparr>pd_name = None, pd_index = [0, 1, 2, 3],
          pd_values = [Val (1 :: real), NaN, NA, Val 3], pd_ext = True\<rparr> ''pandas''))
   \<and> (\<exists>r. PandasSeries_is_nan (\<lambda>u :: unit. ''()'') [2, 2, 0]
          (PandasSeries_init (\<lambda>u :: unit. ''()'') [2, 2, 0]
            \<lparr>pd_name = None, pd_index = [0, 1, 2, 3],
              pd_values = [Val (1 :: real), NaN, NA, Val 3], pd_ext = True\<rparr> ''pandas'') = Inr r
        \<and> pd_values (p_series r) = [Val False, Val True, Val False, Val False])"
  using
    is_nan_marks_nan
      [of "PandasSeries_init (\<lambda>u :: unit. ''()'') [2, 2, 0]
            \<lparr>pd_name = None, pd_index = [0, 1, 2],
              pd_values = [Val (1 :: real), NaN, Val 3], pd_ext = False\<rparr> ''pandas''"
          "\<lambda>u :: unit. ''()''" "[2, 2, 0]"]
    is_nan_marks_nan
      [of "PandasSeries_init (\<lambda>u :: unit. ''()'') [2, 2, 0]
            \<lparr>pd_name = None, pd_index = [0, 1, 2, 3],
              pd_values = [Val (1 :: real), NaN, NA, Val 3], pd_ext = True\<rparr> ''pandas''"
          "\<lambda>u :: unit. ''()''" "[2, 2, 0]"]
  by (simp add: PandasSeries_init_def)

text \<open>
  C10.  \<^verbatim>\<open>scatter\<close> leaves the native object of the series it is called on as it
  was, and with it every object that existed before the call: the engine's in-place
  \<^verbatim>\<open>scatter\<close> is applied to a clone at a new address.  When the engine does not raise,
  the result is an adapter series of the same backend version and version that wraps the
  clone, which then holds what the engine's \<^verbatim>\<open>scatter\<close> made of a copy of the
  original; when it raises, its exception is passed on.
\<close>

theorem scatter_leaves_self_unchanged:
  assumes valid: "native_series self < length store"
  shows "case PolarsSeries_scatter native_scatter store self indices values of
           (store', r) \<Rightarrow>
             store' ! native_series self = store ! native_series self
             \<and> (\<forall>a < length store. store' ! a = store ! a)
             \<and> (case r of
                  Inl e \<Rightarrow>
                    (\<exists>x. snd (native_scatter (store ! native_series self) indices
                                (deref (store @ [store ! native_series self])
                                   (extract_native values))) = Some x
                         \<and> e = NativeError x)
                | Inr s \<Rightarrow>
                    snd (native_scatter (store ! native_series self) indices
                           (deref (store @ [store ! native_series self])
                              (extract_native values))) = None
                    \<and> native_series s = length store
                    \<and> native_series s \<noteq> native_series self
                    \<and> backend_version s = backend_version self
                    \<and> version s = version self
                    \<and> store' ! native_series s
                        = fst (native_scatter (store ! native_series self) indices
                                 (deref (store @ [store ! native_series self])
                                    (extract_native values))))"
  using valid
  by (auto simp add: PolarsSeries_scatter_def pl_clone_def Let_def from_native_series_def
      nth_append split: prod.splits option.splits sum.splits)

theorem scatter_leaves_self_unchanged_witness:
  "native_series \<lparr>native_series = 0, backend_version = [1, 0, 0], version = ()\<rparr>
     < length [[Some (1 :: int), Some 2, Some 3]]
   \<and> PolarsSeries_scatter
       (engine_scatter :: int option list \<Rightarrow> nat list \<Rightarrow> (int option list, unit, int) native_obj
          \<Rightarrow> int option list \<times> string option)
       [[Some 1, Some 2, Some 3]]
       \<lparr>native_series = 0, backend_version = [1, 0, 0], version = ()\<rparr> [1] (WScalar 9)
     = ([[Some 1, Some 2, Some 3], [Some 1, Some 9, Some 3]],
        Inr \<lparr>native_series = 1, backend_version = [1, 0, 0], version = ()\<rparr>)"
  using scatter_leaves_self_unchanged
    [of "\<lparr>native_series = 0, backend_version = [1, 0, 0], version = ()\<rparr>"
        "[[Some (1 :: int), Some 2, Some 3]]"
        "engine_scatter :: int option list \<Rightarrow> nat list
              \<Rightarrow> (int option list, unit, int) native_obj \<Rightarrow> int option list \<times> string option"
        "[1]" "WScalar 9"]
  by (simp add: PolarsSeries_scatter_def pl_clone_def extract_native_def deref_def
      from_native_series_def engine_scatter_def)

lemma filter_by_is_null:
  "map fst (filter (\<lambda>(x, m). m = Some True) (zip xs (map (\<lambda>x. Some (x = None)) xs)))
     = filter (\<lambda>x. x = None) xs"
  by (induction xs) auto

lemma filter_by_not_null:
  "map fst (filter (\<lambda>(x, m). m = Some True)
              (zip xs (map (map_option Not \<circ> (\<lambda>x. Some (x = None))) xs)))
     = filter (\<lambda>x. x \<noteq> None) xs"
  by (induction xs) auto

lemma sort_old_branch:
  assumes "tuple_lt (backend_version self) [0, 20, 6]"
    and "native_sort descending None (native_series self) = Inr r"
  shows "PolarsSeries_sort native_sort self descending True
     = Inr (from_native_series self
              \<lparr>pl_name = pl_name r,
                pl_values = filter (\<lambda>x. x \<noteq> None) (pl_values r)
                            @ filter (\<lambda>x. x = None) (pl_values r)\<rparr>)"
  using assms
  by (simp add: PolarsSeries_sort_def bind_err_def native_def pl_filter_def pl_is_null_def
      pl_invert_def pl_concat_def Let_def filter_by_is_null filter_by_not_null)

lemma sort_new_branch:
  assumes "\<not> tuple_lt (backend_version self) [0, 20, 6]"
    and "native_sort descending (Some nulls_last) (native_series self) = Inr r"
  shows "PolarsSeries_sort native_sort self descending nulls_last
     = Inr (from_native_series self r)"
  using assms by (simp add: PolarsSeries_sort_def bind_err_def native_def)

lemma nulls_at_end_split: "nulls_at_end (filter (\<lambda>x. x \<noteq> None) xs @ filter (\<lambda>x. x = None) xs)"
proof -
  have "dropWhile (\<lambda>x. x \<noteq> None) (filter (\<lambda>x. x \<noteq> None) xs @ ys)
          = dropWhile (\<lambda>x. x \<noteq> None) ys" for ys :: "'a option list"
    by (induction xs) auto
  moreover have "list_all (\<lambda>x. x = None) (dropWhile (\<lambda>x. x \<noteq> None) (filter (\<lambda>x. x = None) xs))"
    by (auto simp add: list_all_iff dest: set_dropWhileD)
  ultimately show ?thesis by (simp add: nulls_at_end_def)
qed

lemma nulls_at_end_decomp:
  "nulls_at_end xs \<Longrightarrow> xs = filter (\<lambda>x. x \<noteq> None) xs @ filter (\<lambda>x. x = None) xs"
proof (induction xs)
  case Nil
  then show ?case by simp
next
  case (Cons x xs)
  show ?case
  proof (cases x)
    case None
    with Cons.prems have all: "list_all (\<lambda>x. x = None) xs"
      by (simp add: nulls_at_end_def)
    then have "filter (\<lambda>x. x \<noteq> None) xs = []" "filter (\<lambda>x. x = None) xs = xs"
      by (induction xs) auto
    with None show ?thesis by simp
  next
    case (Some a)
    with Cons.prems have "nulls_at_end xs" by (simp add: nulls_at_end_def)
    with Cons.IH Some show ?thesis by simp
  qed
qed

lemma filter_null_replicate:
  "filter (\<lambda>x. x = None) xs = replicate (count (mset xs) None) None"
  by (induction xs) auto

lemma filter_not_null_map: "filter (\<lambda>x. x \<noteq> None) xs = map Some (non_null xs)"
  by (induction xs rule: non_null.induct) auto

lemma mset_non_null:
  "mset (non_null xs) = image_mset the (filter_mset (\<lambda>x. x \<noteq> None) (mset xs))"
  by (induction xs rule: non_null.induct) auto

lemma ordered_unique:
  assumes "ordered d xs" "ordered d ys" "mset xs = mset ys"
  shows "xs = ys"
proof (cases d)
  case True
  with assms have "sorted (rev xs)" "sorted (rev ys)" "mset (rev xs) = mset (rev ys)"
    by (simp_all add: ordered_def)
  then have "rev xs = rev ys"
    by (metis properties_for_sort)
  then show ?thesis by simp
next
  case False
  with assms have "sorted xs" "sorted ys" by (simp_all add: ordered_def)
  with assms(3) show ?thesis by (metis properties_for_sort)
qed

lemma sorted_results_agree:
  assumes "sorts_values d s r1" "sorts_values d s r2"
  shows "filter (\<lambda>x. x \<noteq> None) (pl_values r1) = filter (\<lambda>x. x \<noteq> None) (pl_values r2)"
    and "filter (\<lambda>x. x = None) (pl_values r1) = filter (\<lambda>x. x = None) (pl_values r2)"
    and "pl_name r1 = pl_name r2"
proof -
  from assms have m: "mset (pl_values r1) = mset (pl_values r2)"
    by (simp add: sorts_values_def)
  then have "mset (non_null (pl_values r1)) = mset (non_null (pl_values r2))"
    by (simp add: mset_non_null)
  with assms have "non_null (pl_values r1) = non_null (pl_values r2)"
    by (auto simp add: sorts_values_def intro: ordered_unique)
  then show "filter (\<lambda>x. x \<noteq> None) (pl_values r1) = filter (\<lambda>x. x \<noteq> None) (pl_values r2)"
    by (simp only: filter_not_null_map)
  from m show "filter (\<lambda>x. x = None) (pl_values r1) = filter (\<lambda>x. x = None) (pl_values r2)"
    by (simp add: filter_null_replicate)
  from assms show "pl_name r1 = pl_name r2" by (simp add: sorts_values_def)
qed

text \<open>
  C1.  \<^verbatim>\<open>sort\<close> with \<^verbatim>\<open>nulls_last=True\<close> on the Polars adapter, on a backend
  version below \<open>(0, 20, 6)\<close> and on one at or above it.  The engine's \<^verbatim>\<open>sort\<close> is
  not part of the repository; of each engine the theorem takes what \<open>sorts_values\<close>
  says, and of the newer one that it puts the nulls last when asked to.  Then both
  branches return, the two native results are the same series, every null stands at its
  end, and it is a sorted arrangement of the cells of the input.  In the older branch
  the place of the nulls does not depend on the engine: the adapter moves them.
\<close>

theorem sort_nulls_last_branches_agree:
  assumes old_version: "tuple_lt v_old [0, 20, 6]"
    and new_version: "\<not> tuple_lt v_new [0, 20, 6]"
    and old_call: "native_sort_old descending None (native_series self) = Inr r_old"
    and old_sorts: "sorts_values descending (native_series self) r_old"
    and new_call: "native_sort_new descending (Some True) (native_series self) = Inr r_new"
    and new_sorts: "sorts_values descending (native_series self) r_new"
    and new_nulls_last: "nulls_at_end (pl_values r_new)"
  shows "\<exists>a b.
           PolarsSeries_sort native_sort_old (self\<lparr>backend_version := v_old\<rparr>) descending True = Inr a
         \<and> PolarsSeries_sort native_sort_new (self\<lparr>backend_version := v_new\<rparr>) descending True = Inr b
         \<and> native_series a = native_series b
         \<and> nulls_at_end (pl_values (native_series a))
         \<and> nulls_at_end (pl_values (native_series b))
         \<and> sorts_values descending (native_series self) (native_series a)"
proof -
  let ?a = "\<lparr>pl_name = pl_name r_old,
             pl_values = filter (\<lambda>x. x \<noteq> None) (pl_values r_old)
                         @ filter (\<lambda>x. x = None) (pl_values r_old)\<rparr>"
  have a: "PolarsSeries_sort native_sort_old (self\<lparr>backend_version := v_old\<rparr>) descending True
             = Inr (from_native_series (self\<lparr>backend_version := v_old\<rparr>) ?a)"
    using old_version old_call by (intro sort_old_branch) simp_all
  have b: "PolarsSeries_sort native_sort_new (self\<lparr>backend_version := v_new\<rparr>) descending True
             = Inr (from_native_series (self\<lparr>backend_version := v_new\<rparr>) r_new)"
    using new_version new_call by (intro sort_new_branch) simp_all
  have "pl_values r_new = filter (\<lambda>x. x \<noteq> None) (pl_values r_new)
                          @ filter (\<lambda>x. x = None) (pl_values r_new)"
    using new_nulls_last by (rule nulls_at_end_decomp)
  also have "\<dots> = pl_values ?a"
    using sorted_results_agree(1,2)[OF new_sorts old_sorts] by simp
  finally have vals: "pl_values r_new = pl_values ?a" .
  moreover have "pl_name r_new = pl_name ?a"
    using sorted_results_agree(3)[OF new_sorts old_sorts] by simp
  ultimately have eq: "?a = r_new" by simp
  have "nulls_at_end (pl_values ?a)"
    using nulls_at_end_split[of "pl_values r_old"] by simp
  with a b eq new_nulls_last new_sorts show ?thesis
    by (simp add: from_native_series_def)
qed

theorem sort_nulls_last_branches_agree_witness:
  "tuple_lt [0, 20, 5] [0, 20, 6] \<and> \<not> tuple_lt [1, 0, 0] [0, 20, 6]
   \<and> sorts_values True \<lparr>pl_name = ''x'', pl_values = [Some (3 :: int), None, Some 1, Some 2]\<rparr>
        \<lparr>pl_name = ''x'', pl_values = [None, Some 3, Some 2, Some 1]\<rparr>
   \<and> engine_sort True None \<lparr>pl_name = ''x'', pl_values = [Some (3 :: int), None, Some 1, Some 2]\<rparr>
        = Inr \<lparr>pl_name = ''x'', pl_values = [None, Some 3, Some 2, Some 1]\<rparr>
   \<and> (\<exists>a b.
         PolarsSeries_sort engine_sort
           \<lparr>native_series = \<lparr>pl_name = ''x'', pl_values = [Some (3 :: int), None, Some 1, Some 2]\<rparr>,
             backend_version = [0, 20, 5], version = ()\<rparr> True True = Inr a
       \<and> PolarsSeries_sort engine_sort
           \<lparr>native_series = \<lparr>pl_name = ''x'', pl_values = [Some (3 :: int), None, Some 1, Some 2]\<rparr>,
             backend_version = [1, 0, 0], version = ()\<rparr> True True = Inr b
       \<and> native_series a = native_series b
       \<and> pl_values (native_series b) = [Some 3, Some 2, Some 1, None])"
proof -
  let ?s = "\<lparr>pl_name = ''x'', pl_values = [Some (3 :: int), None, Some 1, Some 2]\<rparr>"
  let ?old = "\<lparr>pl_name = ''x'', pl_values = [None, Some (3 :: int), Some 2, Some 1]\<rparr>"
  let ?new = "\<lparr>pl_name = ''x'', pl_values = [Some (3 :: int), Some 2, Some 1, None]\<rparr>"
  let ?self = "\<lparr>native_series = ?s, backend_version = [1, 0, 0], version = ()\<rparr>"
  have v1: "tuple_lt [0, 20, 5] [0, 20, 6]" and v2: "\<not> tuple_lt [1, 0, 0] [0, 20, 6]"
    by simp_all
  have c1: "engine_sort True None (native_series ?self) = Inr ?old"
    by (simp add: engine_sort_def)
  have c2: "engine_sort True (Some True) (native_series ?self) = Inr ?new"
    by (simp add: engine_sort_def)
  have s1: "sorts_values True (native_series ?self) ?old"
    by (simp add: sorts_values_def ordered_def)
  have s2: "sorts_values True (native_series ?self) ?new"
    by (simp add: sorts_values_def ordered_def)
  have n: "nulls_at_end (pl_values ?new)" by (simp add: nulls_at_end_def)
  from sort_nulls_last_branches_agree
         [of "[0, 20, 5]" "[1, 0, 0]" engine_sort True ?self ?old engine_sort ?new,
          OF v1 v2 c1 s1 c2 s2 n]
  obtain a b where
    "PolarsSeries_sort engine_sort (?self\<lparr>backend_version := [0, 20, 5]\<rparr>) True True = Inr a"
    "PolarsSeries_sort engine_sort (?self\<lparr>backend_version := [1, 0, 0]\<rparr>) True True = Inr b"
    "native_series a = native_series b"
    by blast
  moreover from this(2) c2 have "pl_values (native_series b) = [Some 3, Some 2, Some 1, None]"
    by (auto simp add: PolarsSeries_sort_def bind_err_def native_def from_native_series_def)
  ultimately show ?thesis using v1 v2 c1 s1 by auto
qed

end
